theory Spec2Isabelle
  imports Main "HOL-Library.Sublist"
begin

section \<open>JavaScript values\<close>

text \<open>
  The library reads its configuration and its records from untyped JavaScript values.
  A number is an integer-valued double (\<open>NInt\<close>), a finite non-integer (carried as its
  base-10 rendering), an infinity or NaN. Strings are lists of code units. Functions are
  opaque identifiers: what a user-supplied function computes is given by the host record
  further down.
\<close>

datatype jsnum = NInt int | NFrac string | NPosInf | NNegInf | NNaN

datatype propkey = KStr string | KSym string

datatype jsval =
    JUndefined
  | JNull
  | JBool bool
  | JNum jsnum
  | JBigInt int
  | JStr string
  | JSymbol string
  | JFunction nat
  | JRegExp string
  | JBuffer "nat list"
  | JArray "jsval list"
  | JObject "(propkey \<times> jsval) list"

section \<open>String primitives\<close>

text \<open>\<open>s.substring(a, b)\<close>: both indices are clamped to \<open>0..length\<close> and swapped when
  \<open>a > b\<close>; \<open>s.substring(a)\<close> runs to the end of the string.\<close>

definition js_substring :: "string \<Rightarrow> int \<Rightarrow> int \<Rightarrow> string" where
  "js_substring s a b =
     (let n = int (length s);
          a' = max 0 (min a n);
          b' = max 0 (min b n);
          lo = min a' b';
          hi = max a' b'
      in take (nat (hi - lo)) (drop (nat lo) s))"

definition js_substring_from :: "string \<Rightarrow> int \<Rightarrow> string" where
  "js_substring_from s a = js_substring s a (int (length s))"

text \<open>\<open>s[i]\<close>: a one-unit string, or \<open>undefined\<close> (here \<open>None\<close>) out of range.\<close>

definition js_index :: "string \<Rightarrow> int \<Rightarrow> string option" where
  "js_index s i = (if 0 \<le> i \<and> i < int (length s) then Some [s ! nat i] else None)"

text \<open>\<open>s.padEnd(n, p)\<close> and \<open>s.padStart(n, p)\<close>: the filler is \<open>p\<close> repeated and cut to
  the missing length; nothing is added when \<open>s\<close> is long enough or \<open>p\<close> is empty.\<close>

definition pad_filler :: "nat \<Rightarrow> string \<Rightarrow> string" where
  "pad_filler k p = take k (concat (replicate k p))"

definition js_padEnd :: "string \<Rightarrow> nat \<Rightarrow> string \<Rightarrow> string" where
  "js_padEnd s n p = (if n \<le> length s \<or> p = [] then s else s @ pad_filler (n - length s) p)"

definition js_padStart :: "string \<Rightarrow> nat \<Rightarrow> string \<Rightarrow> string" where
  "js_padStart s n p = (if n \<le> length s \<or> p = [] then s else pad_filler (n - length s) p @ s)"

section \<open>Trimming\<close>

datatype align_t = ALeft | ARight

text \<open>The trim option is one of \<open>true\<close>, \<open>false\<close>, \<open>'auto'\<close>, \<open>'left'\<close>, \<open>'right'\<close>.\<close>

datatype trim_mode = TTrue | TFalse | TAuto | TLeft | TRight

function trimStart_loop :: "string \<Rightarrow> string \<Rightarrow> nat \<Rightarrow> nat" where
  "trimStart_loop v pad index =
     (if js_index v (int index) = Some pad then trimStart_loop v pad (index + 1) else index)"
  by pat_completeness auto
termination
  by (relation "measure (\<lambda>(v, pad, index). length v - index)")
     (auto simp: js_index_def split: if_splits)

definition trimStart :: "string \<Rightarrow> string \<Rightarrow> string" where
  "trimStart v pad = js_substring_from v (int (trimStart_loop v pad 0))"

function trimEnd_loop :: "string \<Rightarrow> string \<Rightarrow> int \<Rightarrow> int" where
  "trimEnd_loop v pad index =
     (if js_index v index = Some pad then trimEnd_loop v pad (index - 1) else index)"
  by pat_completeness auto
termination
  by (relation "measure (\<lambda>(v, pad, index). nat (index + 1))")
     (auto simp: js_index_def split: if_splits)

definition trimEnd :: "string \<Rightarrow> string \<Rightarrow> string" where
  "trimEnd v pad = js_substring v 0 (trimEnd_loop v pad (int (length v) - 1) + 1)"

definition trim :: "string \<Rightarrow> string \<Rightarrow> string" where
  "trim v pad = trimEnd (trimStart v pad) pad"

fun trimString :: "string \<Rightarrow> string \<Rightarrow> trim_mode \<Rightarrow> align_t \<Rightarrow> string" where
  "trimString v pad TFalse al = v"
| "trimString v pad TLeft al = trimStart v pad"
| "trimString v pad TRight al = trimEnd v pad"
| "trimString v pad TAuto al = (if al = ARight then trimStart v pad else trimEnd v pad)"
| "trimString v pad TTrue al = trim v pad"

text \<open>Reference notions: stripping the leading, respectively the trailing, run of units
  equal to the pad string.\<close>

definition strip_leading :: "string \<Rightarrow> string \<Rightarrow> string" where
  "strip_leading pad v = dropWhile (\<lambda>c. [c] = pad) v"

definition strip_trailing :: "string \<Rightarrow> string \<Rightarrow> string" where
  "strip_trailing pad v = rev (dropWhile (\<lambda>c. [c] = pad) (rev v))"

section \<open>Primitive operations on values\<close>

text \<open>Truthiness, as \<open>a || b\<close> tests it.\<close>

fun truthy :: "jsval \<Rightarrow> bool" where
  "truthy JUndefined = False"
| "truthy JNull = False"
| "truthy (JBool b) = b"
| "truthy (JNum (NInt i)) = (i \<noteq> 0)"
| "truthy (JNum NNaN) = False"
| "truthy (JNum n) = True"
| "truthy (JBigInt i) = (i \<noteq> 0)"
| "truthy (JStr s) = (s \<noteq> [])"
| "truthy v = True"

definition js_or :: "jsval \<Rightarrow> jsval \<Rightarrow> jsval" where
  "js_or a b = (if truthy a then a else b)"

text \<open>Reading a named property. Only own properties of plain objects are modelled; any
  other read yields \<open>undefined\<close>.\<close>

fun get_prop :: "jsval \<Rightarrow> string \<Rightarrow> jsval" where
  "get_prop (JObject kvs) k = (case map_of kvs (KStr k) of Some v \<Rightarrow> v | None \<Rightarrow> JUndefined)"
| "get_prop v k = JUndefined"

text \<open>\<open>Object(v)\<close>: an empty object for \<open>null\<close> and \<open>undefined\<close>, the value otherwise.\<close>

fun js_Object :: "jsval \<Rightarrow> jsval" where
  "js_Object JUndefined = JObject []"
| "js_Object JNull = JObject []"
| "js_Object v = v"

text \<open>\<open>typeof v === 'object' && v !== null\<close>.\<close>

fun is_object :: "jsval \<Rightarrow> bool" where
  "is_object (JRegExp r) = True"
| "is_object (JBuffer b) = True"
| "is_object (JArray xs) = True"
| "is_object (JObject kvs) = True"
| "is_object v = False"

fun isInteger :: "jsval \<Rightarrow> bool" where
  "isInteger (JNum (NInt i)) = True"
| "isInteger v = False"

fun isPositiveInteger :: "jsval \<Rightarrow> bool" where
  "isPositiveInteger (JNum (NInt i)) = (i > 0)"
| "isPositiveInteger v = False"

text \<open>The natural number held by a value that passed \<open>isPositiveInteger\<close>.\<close>

fun nat_of_val :: "jsval \<Rightarrow> nat" where
  "nat_of_val (JNum (NInt i)) = nat i"
| "nat_of_val v = 0"

text \<open>Base-10 rendering of integers.\<close>

fun nat_dec :: "nat \<Rightarrow> string" where
  "nat_dec n = (if n < 10 then [''0123456789'' ! n]
                else nat_dec (n div 10) @ [''0123456789'' ! (n mod 10)])"

definition int_dec :: "int \<Rightarrow> string" where
  "int_dec i = (if i < 0 then CHR ''-'' # nat_dec (nat (- i)) else nat_dec (nat i))"

text \<open>\<open>n.toString(10)\<close> for a number. Integer-valued doubles print their digits (the
  exponent form that JavaScript switches to from \<open>10^21\<close> on is not modelled).\<close>

fun num_toString :: "jsnum \<Rightarrow> string" where
  "num_toString (NInt i) = int_dec i"
| "num_toString (NFrac s) = s"
| "num_toString NPosInf = ''Infinity''"
| "num_toString NNegInf = ''-Infinity''"
| "num_toString NNaN = ''NaN''"

section \<open>Errors\<close>

text \<open>\<open>TypeError\<close> and \<open>PlainError\<close> (a plain \<open>Error\<close>) carry their message;
  \<open>FixedWidthError\<close> carries its code, its message and the context object.\<close>

datatype error =
    TypeError string
  | PlainError string
  | FixedWidthError string string "(string \<times> jsval) list"

section \<open>Layout validation (options.mjs and its bundled copy)\<close>

datatype prop_t = PIndex nat | PKey propkey

record field =
  f_align :: align_t
  f_cast :: "nat option"
  f_column :: nat
  f_pad :: string
  f_property :: prop_t
  f_stringify :: "nat option"
  f_trim :: trim_mode
  f_width :: nat

datatype eol_t = EolStr string | EolRegExp string

text \<open>The ending line is an integer or positive infinity.\<close>

datatype bound = Fin int | PosInfinity

datatype output_t = OArray | OObject

record options =
  o_allowLongerLines :: bool
  o_allowShorterLines :: bool
  o_encoding :: string
  o_eof :: bool
  o_eol :: eol_t
  o_fields :: "field list"
  o_from :: int
  o_output :: output_t
  o_pad :: string
  o_skipEmptyLines :: bool
  o_to :: bound
  o_trim :: trim_mode
  o_width :: nat

text \<open>\<open>parseTrimOption\<close>. The message of the error leaves out the rendering of the
  rejected value.\<close>

fun parseTrimOption :: "jsval \<Rightarrow> trim_mode \<Rightarrow> error + trim_mode" where
  "parseTrimOption JUndefined defaultValue = Inr defaultValue"
| "parseTrimOption (JBool b) defaultValue = Inr (if b then TTrue else TFalse)"
| "parseTrimOption (JStr s) defaultValue =
     (if s = ''auto'' then Inr TAuto
      else if s = ''left'' then Inr TLeft
      else if s = ''right'' then Inr TRight
      else Inl (TypeError ''Invalid trim option''))"
| "parseTrimOption v defaultValue = Inl (TypeError ''Invalid trim option'')"

fun isPropertyKey :: "jsval \<Rightarrow> bool" where
  "isPropertyKey (JStr s) = True"
| "isPropertyKey (JSymbol s) = True"
| "isPropertyKey v = False"

fun property_of :: "jsval \<Rightarrow> nat \<Rightarrow> prop_t" where
  "property_of (JStr s) index = PKey (KStr s)"
| "property_of (JSymbol s) index = PKey (KSym s)"
| "property_of v index = PIndex index"

fun function_of :: "jsval \<Rightarrow> nat option" where
  "function_of (JFunction i) = Some i"
| "function_of v = None"

definition parseField1 :: "jsval \<Rightarrow> nat \<Rightarrow> nat \<Rightarrow> string \<Rightarrow> trim_mode \<Rightarrow> error + field" where
  "parseField1 fld index defaultColumn defaultPad defaultTrim =
     (if \<not> is_object fld then Inl (TypeError ''Field definition must be an object'')
      else if \<not> isPositiveInteger (get_prop fld ''width'')
      then Inl (TypeError ''Field width must be a positive integer'')
      else
        let column = js_or (get_prop fld ''column'') (JNum (NInt (int defaultColumn))) in
        if \<not> isPositiveInteger column
        then Inl (TypeError ''Field column must be a positive integer'')
        else
          (case js_or (get_prop fld ''pad'') (JStr defaultPad) of
             JStr pad \<Rightarrow>
               if length pad \<noteq> 1
               then Inl (PlainError ''Padding value (pad) must be a single char'')
               else
                 (case parseTrimOption (get_prop fld ''trim'') defaultTrim of
                    Inl e \<Rightarrow> Inl e
                  | Inr t \<Rightarrow>
                      Inr \<lparr> f_align = (if get_prop fld ''align'' = JStr ''right'' then ARight else ALeft),
                            f_cast = function_of (get_prop fld ''cast''),
                            f_column = nat_of_val column,
                            f_pad = pad,
                            f_property = property_of (get_prop fld ''property'') index,
                            f_stringify = function_of (get_prop fld ''stringify''),
                            f_trim = t,
                            f_width = nat_of_val (get_prop fld ''width'') \<rparr>)
           | _ \<Rightarrow> Inl (TypeError ''Padding value (pad) must be a string'')))"

fun parseFields1_loop :: "jsval list \<Rightarrow> nat \<Rightarrow> nat \<Rightarrow> string \<Rightarrow> trim_mode \<Rightarrow> error + field list" where
  "parseFields1_loop [] i column pad tr = Inr []"
| "parseFields1_loop (item # items) i column pad tr =
     (case parseField1 item i column pad tr of
        Inl e \<Rightarrow> Inl e
      | Inr f \<Rightarrow>
          (case parseFields1_loop items (i + 1) (column + f_width f) pad tr of
             Inl e \<Rightarrow> Inl e
           | Inr fs \<Rightarrow> Inr (f # fs)))"

fun parseFields1 :: "jsval \<Rightarrow> string \<Rightarrow> trim_mode \<Rightarrow> error + field list" where
  "parseFields1 (JArray items) pad tr = parseFields1_loop items 0 1 pad tr"
| "parseFields1 v pad tr = Inl (TypeError ''Fields option must be an array'')"

definition getNextField :: "field list \<Rightarrow> nat \<Rightarrow> field option" where
  "getNextField flds column =
     (case filter (\<lambda>item. f_column item \<ge> column) flds of
        [] \<Rightarrow> None
      | a # rest \<Rightarrow> Some (foldl (\<lambda>a b. if f_column a > f_column b then b else a) a rest))"

text \<open>The \<open>while (analyzing)\<close> loop of \<open>getWidth\<close>, on its two variables. \<open>None\<close> stands for
  a loop that never ends.\<close>

partial_function (option) getWidth_loop :: "field list \<Rightarrow> nat \<Rightarrow> nat \<Rightarrow> (nat \<times> nat) option" where
  "getWidth_loop flds column count =
     (case getNextField flds column of
        Some fld \<Rightarrow> getWidth_loop flds (f_column fld + f_width fld) (count + 1)
      | None \<Rightarrow> Some (column, count))"

declare getWidth_loop.simps [code]

definition getWidth :: "field list \<Rightarrow> (error + nat) option" where
  "getWidth flds =
     (case getWidth_loop flds 1 0 of
        None \<Rightarrow> None
      | Some (column, count) \<Rightarrow>
          Some (if count \<le> 0 then Inl (PlainError ''At least one field is required'')
                else if count < length flds then Inl (PlainError ''Some fields are overlapping'')
                else Inr (column - 1)))"

fun eol_of :: "jsval \<Rightarrow> eol_t option" where
  "eol_of (JStr s) = Some (EolStr s)"
| "eol_of (JRegExp r) = Some (EolRegExp r)"
| "eol_of v = None"

fun int_of_val :: "jsval \<Rightarrow> int" where
  "int_of_val (JNum (NInt i)) = i"
| "int_of_val v = 0"

fun bound_of :: "jsval \<Rightarrow> bound option" where
  "bound_of (JNum (NInt i)) = Some (Fin i)"
| "bound_of (JNum NPosInf) = Some PosInfinity"
| "bound_of v = None"

text \<open>\<open>to < from\<close>, \<open>to > 0\<close>, \<open>to < 0\<close>, \<open>line > to\<close> on an ending line.\<close>

fun bound_less :: "bound \<Rightarrow> int \<Rightarrow> bool" where
  "bound_less (Fin t) i = (t < i)"
| "bound_less PosInfinity i = False"

fun bound_greater :: "bound \<Rightarrow> int \<Rightarrow> bool" where
  "bound_greater (Fin t) i = (t > i)"
| "bound_greater PosInfinity i = True"

fun bound_plus :: "int \<Rightarrow> bound \<Rightarrow> bound" where
  "bound_plus k (Fin t) = Fin (k + t)"
| "bound_plus k PosInfinity = PosInfinity"

text \<open>The trim default of the whole layout.\<close>

definition global_trim :: "jsval \<Rightarrow> trim_mode" where
  "global_trim v =
     (if v = JStr ''auto'' then TAuto
      else if v = JStr ''left'' then TLeft
      else if v = JStr ''right'' then TRight
      else if v \<noteq> JBool False then TTrue else TFalse)"

fun has_key :: "field \<Rightarrow> bool" where
  "has_key fld = (case f_property fld of PIndex i \<Rightarrow> False | PKey k \<Rightarrow> True)"

definition relax_or :: "jsval \<Rightarrow> bool \<Rightarrow> bool" where
  "relax_or relax other = (case relax of JBool b \<Rightarrow> b | _ \<Rightarrow> other)"

text \<open>The options object both versions of \<open>parseOptions\<close> start from: an array stands
  for its field list, anything else goes through \<open>Object\<close>.\<close>

definition options_object :: "jsval \<Rightarrow> jsval" where
  "options_object input =
     (case input of JArray xs \<Rightarrow> JObject [(KStr ''fields'', input)] | _ \<Rightarrow> js_Object input)"

text \<open>\<open>parseOptions\<close> as bundled (part 000): the comparison of the ending line with the
  starting line is commented out there.\<close>

definition parseOptions :: "jsval \<Rightarrow> (error + options) option" where
  "parseOptions input =
     (let opts = options_object input in
      case js_or (get_prop opts ''encoding'') (JStr ''utf8'') of
        JStr encoding \<Rightarrow>
          (case js_or (get_prop opts ''pad'') (JStr '' '') of
             JStr pad \<Rightarrow>
               if length pad \<noteq> 1
               then Some (Inl (PlainError ''Padding value (pad) must be a single char''))
               else
                 (case eol_of (js_or (get_prop opts ''eol'') (JStr [])) of
                    None \<Rightarrow> Some (Inl (TypeError ''End of line (eol) value must be a string''))
                  | Some eol \<Rightarrow>
                      let from_v = js_or (get_prop opts ''from'') (JNum (NInt 1)) in
                      if \<not> isInteger from_v
                      then Some (Inl (TypeError ''Starting line (from) must be an integer''))
                      else
                        (case bound_of (js_or (get_prop opts ''to'') (JNum NPosInf)) of
                           None \<Rightarrow> Some (Inl (TypeError ''Ending line (to) must be an integer or infinity''))
                         | Some to_v \<Rightarrow>
                             let tr = global_trim (get_prop opts ''trim'') in
                             (case parseFields1 (get_prop opts ''fields'') pad tr of
                                Inl e \<Rightarrow> Some (Inl e)
                              | Inr flds \<Rightarrow>
                                  (case getWidth flds of
                                     None \<Rightarrow> None
                                   | Some (Inl e) \<Rightarrow> Some (Inl e)
                                   | Some (Inr width) \<Rightarrow>
                                       let properties = length (filter has_key flds) in
                                       if properties > 0 \<and> properties < length flds
                                       then Some (Inl (PlainError ''Target property must be specifier by all fields''))
                                       else Some (Inr
                                         \<lparr> o_allowLongerLines =
                                             relax_or (get_prop opts ''relax'')
                                               (get_prop opts ''allowLongerLines'' \<noteq> JBool False),
                                           o_allowShorterLines =
                                             relax_or (get_prop opts ''relax'')
                                               (get_prop opts ''allowShorterLines'' = JBool True),
                                           o_encoding = encoding,
                                           o_eof = (get_prop opts ''eof'' \<noteq> JBool False),
                                           o_eol = eol,
                                           o_fields = flds,
                                           o_from = int_of_val from_v,
                                           o_output = (if properties > 0 then OObject else OArray),
                                           o_pad = pad,
                                           o_skipEmptyLines = (get_prop opts ''skipEmptyLines'' \<noteq> JBool False),
                                           o_to = to_v,
                                           o_trim = tr,
                                           o_width = width \<rparr>)))))
           | _ \<Rightarrow> Some (Inl (TypeError ''Padding value (pad) must be a string'')))
      | _ \<Rightarrow> Some (Inl (TypeError ''Encoding must be a string'')))"


section \<open>The host: user-supplied functions and platform services\<close>

text \<open>
  \<^item> \<open>call_cast h c v (column, line, width)\<close>: the decode hook \<open>c\<close> applied to a trimmed slice;
  \<^item> \<open>call_stringify h g v\<close>: the encode hook \<open>g\<close> applied to a raw value;
  \<^item> \<open>valueOf h v\<close>: the \<open>valueOf()\<close> method of an object;
  \<^item> \<open>buffer_toString h bytes encoding\<close>: \<open>Buffer.toString(encoding)\<close>;
  \<^item> \<open>regexp_split h r text\<close>: \<open>text.split(r)\<close> for a regular expression \<open>r\<close>.

  User code may throw (\<open>Inl\<close>).
\<close>

record host =
  call_cast :: "nat \<Rightarrow> string \<Rightarrow> nat \<times> nat \<times> nat \<Rightarrow> error + jsval"
  call_stringify :: "nat \<Rightarrow> jsval \<Rightarrow> error + jsval"
  valueOf :: "jsval \<Rightarrow> error + jsval"
  buffer_toString :: "nat list \<Rightarrow> string \<Rightarrow> string"
  regexp_split :: "string \<Rightarrow> string \<Rightarrow> string list"

section \<open>Record codec: decode\<close>

definition parseField :: "host \<Rightarrow> string \<Rightarrow> field \<Rightarrow> options \<Rightarrow> nat \<Rightarrow> error + jsval" where
  "parseField h text fld opts line =
     (let index = int (f_column fld) - 1;
          v = trimString (js_substring text index (index + int (f_width fld)))
                (f_pad fld) (f_trim fld) (f_align fld)
      in case f_cast fld of
           None \<Rightarrow> Inr (JStr v)
         | Some c \<Rightarrow> call_cast h c v (f_column fld, line, f_width fld))"

text \<open>\<open>fields.map(f)\<close> and \<open>fields.reduce(...)\<close> with a callback that may throw: the first
  failure ends the walk.\<close>

fun map_fields :: "('a \<Rightarrow> error + 'b) \<Rightarrow> 'a list \<Rightarrow> error + 'b list" where
  "map_fields f [] = Inr []"
| "map_fields f (x # xs) =
     (case f x of
        Inl e \<Rightarrow> Inl e
      | Inr y \<Rightarrow> (case map_fields f xs of Inl e \<Rightarrow> Inl e | Inr ys \<Rightarrow> Inr (y # ys)))"

fun key_of :: "prop_t \<Rightarrow> propkey" where
  "key_of (PKey k) = k"
| "key_of (PIndex i) = KStr (nat_dec i)"

text \<open>\<open>obj[key] = value\<close> on a plain object: an existing key keeps its place.\<close>

fun set_prop :: "(propkey \<times> jsval) list \<Rightarrow> propkey \<Rightarrow> jsval \<Rightarrow> (propkey \<times> jsval) list" where
  "set_prop [] k v = [(k, v)]"
| "set_prop ((k', v') # kvs) k v =
     (if k' = k then (k, v) # kvs else (k', v') # set_prop kvs k v)"

fun reduce_fields ::
  "host \<Rightarrow> string \<Rightarrow> options \<Rightarrow> nat \<Rightarrow> (propkey \<times> jsval) list \<Rightarrow> field list \<Rightarrow> error + jsval" where
  "reduce_fields h text opts line acc [] = Inr (JObject acc)"
| "reduce_fields h text opts line acc (fld # flds) =
     (case parseField h text fld opts line of
        Inl e \<Rightarrow> Inl e
      | Inr v \<Rightarrow> reduce_fields h text opts line (set_prop acc (key_of (f_property fld)) v) flds)"

definition parseFields :: "host \<Rightarrow> string \<Rightarrow> options \<Rightarrow> nat \<Rightarrow> error + jsval" where
  "parseFields h text opts line =
     (if length text > o_width opts \<and> \<not> o_allowLongerLines opts
      then Inl (FixedWidthError ''UNEXPECTED_LINE_LENGTH''
                 (''Line '' @ nat_dec line @ '' is longer than expected (see allowLongerLines options)'')
                 [(''line'', JNum (NInt (int line))), (''value'', JStr text)])
      else if length text < o_width opts \<and> \<not> o_allowShorterLines opts
      then Inl (FixedWidthError ''UNEXPECTED_LINE_LENGTH''
                 (''Line '' @ nat_dec line @ '' is shorted than expected (see allowShorterLines options)'')
                 [(''line'', JNum (NInt (int line))), (''value'', JStr text)])
      else if o_output opts = OObject
      then reduce_fields h text opts line [] (o_fields opts)
      else (case map_fields (\<lambda>fld. parseField h text fld opts line) (o_fields opts) of
              Inl e \<Rightarrow> Inl e
            | Inr vs \<Rightarrow> Inr (JArray vs)))"

section \<open>Record codec: encode\<close>

fun stringifyPrimitiveValue :: "jsval \<Rightarrow> jsval" where
  "stringifyPrimitiveValue JUndefined = JStr []"
| "stringifyPrimitiveValue JNull = JStr []"
| "stringifyPrimitiveValue (JBool b) = JStr (if b then ''1'' else ''0'')"
| "stringifyPrimitiveValue (JNum n) = JStr (num_toString n)"
| "stringifyPrimitiveValue (JBigInt i) = JStr (int_dec i)"
| "stringifyPrimitiveValue v = v"

definition stringifyValue :: "host \<Rightarrow> jsval \<Rightarrow> string \<Rightarrow> error + jsval" where
  "stringifyValue h v encoding =
     (case v of
        JBuffer bytes \<Rightarrow> Inr (JStr (buffer_toString h bytes encoding))
      | _ \<Rightarrow>
          if is_object v
          then (case valueOf h v of Inl e \<Rightarrow> Inl e | Inr u \<Rightarrow> Inr (stringifyPrimitiveValue u))
          else Inr (stringifyPrimitiveValue v))"

text \<open>\<open>obj[field.property]\<close>: an element of an array, a property of a plain object, a unit of
  a string or a byte of a buffer; \<open>undefined\<close> otherwise.\<close>

fun read_prop :: "jsval \<Rightarrow> prop_t \<Rightarrow> jsval" where
  "read_prop (JArray xs) (PIndex i) = (if i < length xs then xs ! i else JUndefined)"
| "read_prop (JObject kvs) p = (case map_of kvs (key_of p) of Some v \<Rightarrow> v | None \<Rightarrow> JUndefined)"
| "read_prop (JStr s) (PIndex i) = (if i < length s then JStr [s ! i] else JUndefined)"
| "read_prop (JBuffer bs) (PIndex i) = (if i < length bs then JNum (NInt (int (bs ! i))) else JUndefined)"
| "read_prop v p = JUndefined"

definition field_context :: "nat \<Rightarrow> field \<Rightarrow> jsval \<Rightarrow> (string \<times> jsval) list" where
  "field_context line fld v =
     [(''line'', JNum (NInt (int line))),
      (''column'', JNum (NInt (int (f_column fld)))),
      (''width'', JNum (NInt (int (f_width fld)))),
      (''value'', v)]"

definition stringifyField :: "host \<Rightarrow> jsval \<Rightarrow> field \<Rightarrow> options \<Rightarrow> nat \<Rightarrow> error + string" where
  "stringifyField h obj fld opts line =
     (case (case f_stringify fld of
              None \<Rightarrow> Inr (read_prop obj (f_property fld))
            | Some g \<Rightarrow> call_stringify h g (read_prop obj (f_property fld))) of
        Inl e \<Rightarrow> Inl e
      | Inr raw \<Rightarrow>
          (case stringifyValue h raw (o_encoding opts) of
             Inl e \<Rightarrow> Inl e
           | Inr (JStr s) \<Rightarrow>
               if length s > f_width fld
               then Inl (FixedWidthError ''FIELD_VALUE_OVERFLOW''
                          (''Value on position '' @ nat_dec line @ '':'' @ nat_dec (f_column fld)
                             @ '' overflow its width'')
                          (field_context line fld (JStr s)))
               else Inr (if f_align fld = ARight
                         then js_padStart s (f_width fld) (f_pad fld)
                         else js_padEnd s (f_width fld) (f_pad fld))
           | Inr v \<Rightarrow>
               Inl (FixedWidthError ''EXPECTED_STRING_VALUE''
                     (''Cannot cast to string value on position '' @ nat_dec line @ '':''
                        @ nat_dec (f_column fld))
                     (field_context line fld v))))"

definition replaceWith :: "string \<Rightarrow> string \<Rightarrow> int \<Rightarrow> string" where
  "replaceWith text v index =
     js_substring text 0 index @ v @ js_substring_from text (index + int (length v))"

fun stringifyFields_loop ::
  "host \<Rightarrow> jsval \<Rightarrow> options \<Rightarrow> nat \<Rightarrow> string \<Rightarrow> field list \<Rightarrow> error + string" where
  "stringifyFields_loop h obj opts line text [] = Inr text"
| "stringifyFields_loop h obj opts line text (fld # flds) =
     (case stringifyField h obj fld opts line of
        Inl e \<Rightarrow> Inl e
      | Inr v \<Rightarrow>
          stringifyFields_loop h obj opts line (replaceWith text v (int (f_column fld) - 1)) flds)"

definition stringifyFields :: "host \<Rightarrow> jsval \<Rightarrow> options \<Rightarrow> nat \<Rightarrow> error + string" where
  "stringifyFields h obj opts line =
     stringifyFields_loop h (js_Object obj) opts line
       (js_padEnd [] (o_width opts) (o_pad opts)) (o_fields opts)"

section \<open>Line assembler and parser\<close>

definition CR :: char where "CR = CHR 0x0D"
definition LF :: char where "LF = CHR 0x0A"

text \<open>\<open>/\r\n/.test(text)\<close>.\<close>

fun has_crlf :: "string \<Rightarrow> bool" where
  "has_crlf (a # b # cs) = ((a = CR \<and> b = LF) \<or> has_crlf (b # cs))"
| "has_crlf cs = False"

text \<open>The index of the match of \<open>/[\r\n]{1,2}/\<close>: the first carriage return or line feed.\<close>

fun first_break :: "string \<Rightarrow> nat option" where
  "first_break [] = None"
| "first_break (c # cs) =
     (if c = CR \<or> c = LF then Some 0 else map_option Suc (first_break cs))"

definition guessEndOfLine :: "string \<Rightarrow> string option" where
  "guessEndOfLine text =
     (if has_crlf text then Some [CR, LF]
      else case first_break text of
             None \<Rightarrow> None
           | Some index \<Rightarrow>
               if js_index text (int index) = Some [LF] then Some [LF]
               else if length text > index + 1 then Some [CR]
               else None)"

text \<open>\<open>text.split(sep)\<close> for a string separator: the text is cut at the successive leftmost
  occurrences of \<open>sep\<close>; an empty separator cuts between all units.\<close>

fun split_scan :: "string \<Rightarrow> string \<Rightarrow> string \<Rightarrow> string list" where
  "split_scan sep cur [] = [cur]"
| "split_scan sep cur (c # cs) =
     (if prefix sep (c # cs)
      then cur # split_scan sep [] (drop (length sep - 1) cs)
      else split_scan sep (cur @ [c]) cs)"

definition js_split :: "string \<Rightarrow> string \<Rightarrow> string list" where
  "js_split text sep = (if sep = [] then map (\<lambda>c. [c]) text else split_scan sep [] text)"

fun split_eol :: "host \<Rightarrow> string \<Rightarrow> eol_t \<Rightarrow> string list" where
  "split_eol h text (EolStr sep) = js_split text sep"
| "split_eol h text (EolRegExp r) = regexp_split h r text"

text \<open>\<open>!options.eol\<close>: only the empty string is falsy.\<close>

fun eol_unset :: "eol_t \<Rightarrow> bool" where
  "eol_unset (EolStr s) = (s = [])"
| "eol_unset (EolRegExp r) = False"

record parser =
  p_options :: options
  p_line :: nat
  p_text :: string
  p_totalLines :: nat

definition new_Parser :: "jsval \<Rightarrow> (error + parser) option" where
  "new_Parser input =
     (case parseOptions input of
        None \<Rightarrow> None
      | Some (Inl e) \<Rightarrow> Some (Inl e)
      | Some (Inr opts) \<Rightarrow>
          Some (Inr \<lparr> p_options = opts, p_line = 1, p_text = [], p_totalLines = 0 \<rparr>))"

text \<open>The four range tests shared by \<open>write\<close> and \<open>end\<close>.\<close>

definition outOfRange :: "options \<Rightarrow> nat \<Rightarrow> nat \<Rightarrow> bool" where
  "outOfRange opts line totalLines =
     ((o_from opts > 0 \<and> int line < o_from opts)
      \<or> (o_from opts < 0 \<and> int line < int totalLines + 1 + o_from opts)
      \<or> (bound_greater (o_to opts) 0 \<and> bound_less (o_to opts) (int line))
      \<or> (bound_less (o_to opts) 0 \<and> bound_less (bound_plus (int totalLines + 1) (o_to opts)) (int line)))"

text \<open>The \<open>for (const chunk of chunks)\<close> loop of \<open>write\<close>. The result is the records yielded,
  the error that ended the generator (if any) and the line counter.\<close>

fun write_loop ::
  "host \<Rightarrow> options \<Rightarrow> nat \<Rightarrow> string list \<Rightarrow> nat \<Rightarrow> jsval list \<times> error option \<times> nat" where
  "write_loop h opts totalLines [] line = ([], None, line)"
| "write_loop h opts totalLines (chunk # chunks) line =
     (if outOfRange opts line totalLines
      then write_loop h opts totalLines chunks (line + 1)
      else if length chunk > 0 \<or> \<not> o_skipEmptyLines opts
      then (case parseFields h chunk opts line of
              Inl e \<Rightarrow> ([], Some e, line + 1)
            | Inr r \<Rightarrow>
                (case write_loop h opts totalLines chunks (line + 1) of
                   (rs, err, line') \<Rightarrow> (r # rs, err, line')))
      else write_loop h opts totalLines chunks line)"

text \<open>\<open>Parser.write\<close> on a chunk of text (a byte chunk is taken after the string decoder).
  A split that yields no segment leaves \<open>undefined\<close> in the carry buffer, and reading its
  length throws.\<close>

definition parser_write :: "host \<Rightarrow> parser \<Rightarrow> string \<Rightarrow> jsval list \<times> error option \<times> parser" where
  "parser_write h st input =
     (let text = p_text st @ input;
          opts = (if eol_unset (o_eol (p_options st))
                  then (case guessEndOfLine text of
                          Some eol \<Rightarrow> (p_options st)\<lparr> o_eol := EolStr eol \<rparr>
                        | None \<Rightarrow> p_options st)
                  else p_options st)
      in if eol_unset (o_eol opts)
         then ([], None, st\<lparr> p_options := opts, p_text := text \<rparr>)
         else
           (case split_eol h text (o_eol opts) of
              [] \<Rightarrow> ([], Some (TypeError ''Cannot read properties of undefined (reading length)''),
                     st\<lparr> p_options := opts, p_text := [] \<rparr>)
            | seg # segs \<Rightarrow>
                let chunks = butlast (seg # segs);
                    rest = last (seg # segs);
                    totalLines = length chunks + (if length rest > 0 then 1 else 0)
                in (case write_loop h opts totalLines chunks (p_line st) of
                      (rs, err, line') \<Rightarrow>
                        (rs, err, \<lparr> p_options = opts, p_line = line', p_text = rest,
                                    p_totalLines = totalLines \<rparr>))))"

text \<open>\<open>Parser.end\<close>. When decoding the last line throws, the reset is not reached.\<close>

definition parser_end :: "host \<Rightarrow> parser \<Rightarrow> jsval list \<times> error option \<times> parser" where
  "parser_end h st =
     (let reset = st\<lparr> p_text := [], p_line := 1, p_totalLines := 0 \<rparr> in
      if length (p_text st) > 0
      then if \<not> outOfRange (p_options st) (p_line st) (p_totalLines st)
           then (case parseFields h (p_text st) (p_options st) (p_line st) of
                   Inl e \<Rightarrow> ([], Some e, st\<lparr> p_line := p_line st + 1 \<rparr>)
                 | Inr r \<Rightarrow> ([r], None, reset))
           else ([], None, reset)
      else ([], None, reset))"

text \<open>Driving a parser over a sequence of chunks, as \<open>parseIterable\<close> does: every chunk is
  written, then the parser is ended; an error ends the sequence.\<close>

fun feed :: "host \<Rightarrow> parser \<Rightarrow> string list \<Rightarrow> jsval list \<times> error option \<times> parser" where
  "feed h st [] = ([], None, st)"
| "feed h st (c # cs) =
     (case parser_write h st c of
        (rs, Some e, st') \<Rightarrow> (rs, Some e, st')
      | (rs, None, st') \<Rightarrow>
          (case feed h st' cs of (rs', err, st'') \<Rightarrow> (rs @ rs', err, st'')))"

definition parseIterable :: "host \<Rightarrow> parser \<Rightarrow> string list \<Rightarrow> jsval list \<times> error option" where
  "parseIterable h st cs =
     (case feed h st cs of
        (rs, Some e, st') \<Rightarrow> (rs, Some e)
      | (rs, None, st') \<Rightarrow>
          (case parser_end h st' of (rs', err, st'') \<Rightarrow> (rs @ rs', err)))"

section \<open>Example configurations\<close>

text \<open>A host without hooks: objects convert to themselves, bytes decode one unit each, a
  regular expression never matches.\<close>

definition plain_host :: host where
  "plain_host =
     \<lparr> call_cast = (\<lambda>c v ctx. Inr (JStr v)),
       call_stringify = (\<lambda>g v. Inr v),
       valueOf = (\<lambda>v. Inr v),
       buffer_toString = (\<lambda>bytes encoding. map char_of bytes),
       regexp_split = (\<lambda>r text. [text]) \<rparr>"

text \<open>The layout \<open>[{ width: 2 }, { width: 2 }]\<close> and the options it normalizes to.\<close>

definition two_fields :: jsval where
  "two_fields =
     JArray [JObject [(KStr ''width'', JNum (NInt 2))], JObject [(KStr ''width'', JNum (NInt 2))]]"

definition two_fields_options :: options where
  "two_fields_options =
     \<lparr> o_allowLongerLines = True, o_allowShorterLines = False, o_encoding = ''utf8'',
       o_eof = True, o_eol = EolStr [],
       o_fields =
         [\<lparr> f_align = ALeft, f_cast = None, f_column = 1, f_pad = '' '', f_property = PIndex 0,
             f_stringify = None, f_trim = TTrue, f_width = 2 \<rparr>,
          \<lparr> f_align = ALeft, f_cast = None, f_column = 3, f_pad = '' '', f_property = PIndex 1,
             f_stringify = None, f_trim = TTrue, f_width = 2 \<rparr>],
       o_from = 1, o_output = OArray, o_pad = '' '', o_skipEmptyLines = True,
       o_to = PosInfinity, o_trim = TTrue, o_width = 4 \<rparr>"

text \<open>A left-aligned, space-padded field at column 1, without hooks.\<close>

definition plain_field :: "nat \<Rightarrow> field" where
  "plain_field w =
     \<lparr> f_align = ALeft, f_cast = None, f_column = 1, f_pad = '' '', f_property = PIndex 0,
       f_stringify = None, f_trim = TTrue, f_width = w \<rparr>"

text \<open>A parser on the layout of two fields of width 2, with line feed as the configured
  line ending and the given line range.\<close>

definition lf_options :: "int \<Rightarrow> bound \<Rightarrow> options" where
  "lf_options from_v to_v =
     two_fields_options\<lparr> o_eol := EolStr [LF], o_from := from_v, o_to := to_v \<rparr>"

definition lf_parser :: "int \<Rightarrow> bound \<Rightarrow> parser" where
  "lf_parser from_v to_v =
     \<lparr> p_options = lf_options from_v to_v, p_line = 1, p_text = [], p_totalLines = 0 \<rparr>"


section \<open>Reference notions for the claims\<close>

text \<open>A carriage return directly followed by a line feed occurs in the text.\<close>

definition contains_crlf :: "string \<Rightarrow> bool" where
  "contains_crlf buf = (\<exists>i. Suc i < length buf \<and> buf ! i = CR \<and> buf ! Suc i = LF)"

text \<open>The first carriage return or line feed of the text is at index \<open>i\<close>.\<close>

definition first_break_at :: "string \<Rightarrow> nat \<Rightarrow> bool" where
  "first_break_at buf i =
     (i < length buf \<and> (buf ! i = CR \<or> buf ! i = LF)
      \<and> (\<forall>j<i. buf ! j \<noteq> CR \<and> buf ! j \<noteq> LF))"












text \<open>The sides on which the trim mode of a field strips pad units, whether it strips the
  side on which encoding pads (the right side of a left-aligned field, the left side of a
  right-aligned one), and whether a string carries no pad unit on a stripped side.\<close>

definition strips_left :: "field \<Rightarrow> bool" where
  "strips_left fld =
     (f_trim fld = TTrue \<or> f_trim fld = TLeft \<or> (f_trim fld = TAuto \<and> f_align fld = ARight))"

definition strips_right :: "field \<Rightarrow> bool" where
  "strips_right fld =
     (f_trim fld = TTrue \<or> f_trim fld = TRight \<or> (f_trim fld = TAuto \<and> f_align fld \<noteq> ARight))"

definition trims_padding :: "field \<Rightarrow> bool" where
  "trims_padding fld = (if f_align fld = ARight then strips_left fld else strips_right fld)"

definition clean_for :: "field \<Rightarrow> string \<Rightarrow> bool" where
  "clean_for fld s =
     ((strips_left fld \<longrightarrow> \<not> prefix (f_pad fld) s)
      \<and> (strips_right fld \<longrightarrow> \<not> suffix (f_pad fld) s))"

text \<open>A field covers the (0-based) position \<open>i\<close> of a line.\<close>

definition covers :: "field \<Rightarrow> nat \<Rightarrow> bool" where
  "covers g i = (f_column g - 1 \<le> i \<and> i < f_column g - 1 + f_width g)"

section \<open>Trimming: proofs\<close>

lemmas trimStart_loop_eq = trimStart_loop.simps
lemmas trimEnd_loop_eq = trimEnd_loop.simps
declare trimStart_loop.simps [simp del]
declare trimEnd_loop.simps [simp del]

lemma js_substring_from_nat: "js_substring_from s (int k) = drop k s"
  by (cases "k \<le> length s") (auto simp: js_substring_from_def js_substring_def Let_def min_def max_def)

lemma js_substring_zero: "0 \<le> b \<Longrightarrow> js_substring s 0 b = take (nat b) s"
  by (auto simp: js_substring_def Let_def min_def max_def)

lemma trimStart_loop_count:
  "index \<le> length v \<Longrightarrow>
   trimStart_loop v pad index = index + length (takeWhile (\<lambda>c. [c] = pad) (drop index v))"
proof (induction v pad index rule: trimStart_loop.induct)
  case (1 v pad index)
  show ?case
  proof (cases "index < length v")
    case False
    with "1.prems" show ?thesis
      by (subst trimStart_loop_eq) (simp add: js_index_def)
  next
    case True
    then have d: "drop index v = v ! index # drop (Suc index) v"
      by (simp add: Cons_nth_drop_Suc)
    show ?thesis
    proof (cases "[v ! index] = pad")
      case False
      with True d show ?thesis
        by (simp add: trimStart_loop_eq [of v pad index] js_index_def)
    next
      case eq: True
      with True have "js_index v (int index) = Some pad"
        by (simp add: js_index_def)
      moreover from this True have
        "trimStart_loop v pad (index + 1) =
           index + 1 + length (takeWhile (\<lambda>c. [c] = pad) (drop (index + 1) v))"
        by (intro "1.IH") simp_all
      ultimately show ?thesis
        using eq d by (simp add: trimStart_loop_eq [of v pad index])
    qed
  qed
qed

lemma trimStart_strip: "trimStart v pad = strip_leading pad v"
proof -
  have "drop (length (takeWhile (\<lambda>c. [c] = pad) v)) v = dropWhile (\<lambda>c. [c] = pad) v"
    by (simp add: dropWhile_eq_drop)
  then show ?thesis
    by (simp add: trimStart_def strip_leading_def js_substring_from_nat trimStart_loop_count)
qed

lemma trimEnd_loop_count:
  "- 1 \<le> index \<Longrightarrow> index < int (length v) \<Longrightarrow>
   trimEnd_loop v pad index =
     index - int (length (takeWhile (\<lambda>c. [c] = pad) (rev (take (nat (index + 1)) v))))"
proof (induction v pad index rule: trimEnd_loop.induct)
  case (1 v pad index)
  show ?case
  proof (cases "index = - 1")
    case True
    then show ?thesis
      by (subst trimEnd_loop_eq) (simp add: js_index_def)
  next
    case False
    with "1.prems" have nn: "0 \<le> index" by simp
    define k where "k = nat index"
    with nn "1.prems" have k: "index = int k" "k < length v" by simp_all
    have t: "take (nat (index + 1)) v = take k v @ [v ! k]"
      using k by (simp add: nat_add_distrib take_Suc_conv_app_nth)
    show ?thesis
    proof (cases "[v ! k] = pad")
      case False
      with k t show ?thesis
        by (subst trimEnd_loop_eq) (simp add: js_index_def)
    next
      case eq: True
      with k have j: "js_index v index = Some pad"
        by (simp add: js_index_def)
      have "trimEnd_loop v pad (index - 1) =
          index - 1 - int (length (takeWhile (\<lambda>c. [c] = pad) (rev (take (nat (index - 1 + 1)) v))))"
        using j k by (intro "1.IH") simp_all
      then show ?thesis
        using j t k by (subst trimEnd_loop_eq) (simp add: eq [symmetric])
    qed
  qed
qed

lemma trimEnd_strip: "trimEnd v pad = strip_trailing pad v"
proof -
  let ?P = "\<lambda>c. [c] = pad"
  have le: "length (takeWhile ?P (rev v)) \<le> length v"
    using length_takeWhile_le [of ?P "rev v"] by simp
  have "trimEnd_loop v pad (int (length v) - 1) + 1 =
          int (length v) - int (length (takeWhile ?P (rev v)))"
    by (simp add: trimEnd_loop_count)
  then have "trimEnd v pad = take (length v - length (takeWhile ?P (rev v))) v"
    using le by (simp add: trimEnd_def js_substring_zero nat_diff_distrib')
  also have "\<dots> = rev (drop (length (takeWhile ?P (rev v))) (rev v))"
    by (simp add: rev_drop)
  also have "\<dots> = rev (dropWhile ?P (rev v))"
    by (simp add: dropWhile_eq_drop)
  finally show ?thesis
    by (simp add: strip_trailing_def)
qed

lemma trim_strip: "trim v pad = strip_trailing pad (strip_leading pad v)"
  by (simp add: trim_def trimStart_strip trimEnd_strip)

section \<open>Evaluating the validation on concrete layouts\<close>

lemmas eval_opts = parseOptions_def options_object_def js_or_def parseField1_def getWidth_def
  getWidth_loop.simps getNextField_def global_trim_def relax_or_def

lemma two_fields_parse: "parseOptions two_fields = Some (Inr two_fields_options)"
  by (simp add: two_fields_def two_fields_options_def eval_opts)

lemma two_fields_relaxed_parse:
  "parseOptions (JObject [(KStr ''fields'', two_fields), (KStr ''allowShorterLines'', JBool True)])
     = Some (Inr (two_fields_options\<lparr> o_allowShorterLines := True \<rparr>))"
  by (simp add: two_fields_def two_fields_options_def eval_opts)

section \<open>Padding\<close>

lemma pad_filler_single: "pad_filler k [c] = replicate k c"
  by (induction k) (simp_all add: pad_filler_def)

lemma padEnd_single: "js_padEnd s n [c] = s @ replicate (n - length s) c"
  by (simp add: js_padEnd_def pad_filler_single)

lemma padStart_single: "js_padStart s n [c] = replicate (n - length s) c @ s"
  by (simp add: js_padStart_def pad_filler_single)

lemma length_padEnd: "length p = 1 \<Longrightarrow> length (js_padEnd s n p) = max n (length s)"
  by (cases p) (auto simp: padEnd_single)

lemma length_padStart: "length p = 1 \<Longrightarrow> length (js_padStart s n p) = max n (length s)"
  by (cases p) (auto simp: padStart_single)

lemma prefix_padEnd: "prefix s (js_padEnd s n p)"
  by (simp add: js_padEnd_def)

lemma suffix_padStart: "suffix s (js_padStart s n p)"
  by (simp add: js_padStart_def suffix_def)

lemma nat_dec_123: "nat_dec 123 = ''123''"
  by (simp add: nat_dec.simps [of 123] nat_dec.simps [of 12] nat_dec.simps [of 1])

section \<open>Line-ending detection\<close>

lemma has_crlf_iff: "has_crlf text = contains_crlf text"
proof (induction "text" rule: has_crlf.induct)
  case (1 a b cs)
  have "contains_crlf (a # b # cs) = ((a = CR \<and> b = LF) \<or> contains_crlf (b # cs))"
    unfolding contains_crlf_def
  proof (intro iffI; elim exE disjE conjE)
    fix i assume "Suc i < length (a # b # cs)" "(a # b # cs) ! i = CR" "(a # b # cs) ! Suc i = LF"
    then show "a = CR \<and> b = LF \<or> (\<exists>i. Suc i < length (b # cs) \<and> (b # cs) ! i = CR \<and> (b # cs) ! Suc i = LF)"
      by (cases i) auto
  next
    assume "a = CR" "b = LF"
    then show "\<exists>i. Suc i < length (a # b # cs) \<and> (a # b # cs) ! i = CR \<and> (a # b # cs) ! Suc i = LF"
      by (intro exI [of _ 0]) simp
  next
    fix i assume "Suc i < length (b # cs)" "(b # cs) ! i = CR" "(b # cs) ! Suc i = LF"
    then show "\<exists>i. Suc i < length (a # b # cs) \<and> (a # b # cs) ! i = CR \<and> (a # b # cs) ! Suc i = LF"
      by (intro exI [of _ "Suc i"]) simp
  qed
  with 1 show ?case by simp
qed (auto simp: contains_crlf_def)

lemma first_break_Some: "first_break text = Some i \<longleftrightarrow> first_break_at text i"
proof (induction "text" arbitrary: i)
  case Nil
  show ?case by (simp add: first_break_at_def)
next
  case (Cons c cs)
  show ?case
  proof (cases "c = CR \<or> c = LF")
    case True
    then show ?thesis
      by (cases i) (auto simp: first_break_at_def)
  next
    case False
    show ?thesis
    proof (cases i)
      case 0
      with False show ?thesis by (auto simp: first_break_at_def)
    next
      case (Suc k)
      have "first_break_at (c # cs) (Suc k) = first_break_at cs k"
        using False by (auto simp: first_break_at_def less_Suc_eq_0_disj)
      with Suc False Cons.IH [of k] show ?thesis by auto
    qed
  qed
qed

lemma first_break_None: "first_break text = None \<longleftrightarrow> CR \<notin> set text \<and> LF \<notin> set text"
  by (induction "text") auto

lemma js_index_nth: "i < length s \<Longrightarrow> js_index s (int i) = Some [s ! i]"
  by (simp add: js_index_def)


section \<open>Evaluating the parser on concrete inputs\<close>

lemmas eval_parser = parser_write_def parser_end_def parseIterable_def js_split_def outOfRange_def
  parseFields_def parseField_def js_substring_def trim_strip strip_leading_def strip_trailing_def
  guessEndOfLine_def js_index_def

lemma lf_parser_new:
  "new_Parser (JObject [(KStr ''fields'', two_fields), (KStr ''eol'', JStr [LF]),
                        (KStr ''to'', JNum (NInt 1))])
    = Some (Inr (lf_parser 1 (Fin 1)))"
  by (simp add: new_Parser_def two_fields_def two_fields_options_def eval_opts lf_parser_def
      lf_options_def LF_def)

section \<open>The two versions of the option parser\<close>



section \<open>The options held by a parser\<close>

lemma parser_write_options:
  "p_options (snd (snd (parser_write h st input))) =
     (if eol_unset (o_eol (p_options st))
      then (case guessEndOfLine (p_text st @ input) of
              Some eol \<Rightarrow> (p_options st)\<lparr> o_eol := EolStr eol \<rparr>
            | None \<Rightarrow> p_options st)
      else p_options st)"
proof -
  define opts where "opts =
     (if eol_unset (o_eol (p_options st))
      then (case guessEndOfLine (p_text st @ input) of
              Some eol \<Rightarrow> (p_options st)\<lparr> o_eol := EolStr eol \<rparr>
            | None \<Rightarrow> p_options st)
      else p_options st)"
  have w: "parser_write h st input =
     (if eol_unset (o_eol opts)
         then ([], None, st\<lparr> p_options := opts, p_text := p_text st @ input \<rparr>)
         else
           (case split_eol h (p_text st @ input) (o_eol opts) of
              [] \<Rightarrow> ([], Some (TypeError ''Cannot read properties of undefined (reading length)''),
                     st\<lparr> p_options := opts, p_text := [] \<rparr>)
            | seg # segs \<Rightarrow>
                (case write_loop h opts
                        (length (butlast (seg # segs)) + (if length (last (seg # segs)) > 0 then 1 else 0))
                        (butlast (seg # segs)) (p_line st) of
                      (rs, err, line') \<Rightarrow>
                        (rs, err, \<lparr> p_options = opts, p_line = line', p_text = last (seg # segs),
                                    p_totalLines = length (butlast (seg # segs)) + (if length (last (seg # segs)) > 0 then 1 else 0) \<rparr>))))"
    unfolding parser_write_def opts_def Let_def by (rule refl)
  have "p_options (snd (snd (parser_write h st input))) = opts"
  proof (cases "eol_unset (o_eol opts)")
    case True
    then show ?thesis by (simp add: w)
  next
    case False
    show ?thesis
    proof (cases "split_eol h (p_text st @ input) (o_eol opts)")
      case Nil
      with False show ?thesis by (simp add: w)
    next
      case (Cons seg segs)
      obtain rs err l where "write_loop h opts
          (length (butlast (seg # segs)) + (if length (last (seg # segs)) > 0 then 1 else 0))
          (butlast (seg # segs)) (p_line st) = (rs, err, l)"
        by (rule prod_cases3)
      with False Cons show ?thesis by (simp add: w)
    qed
  qed
  then show ?thesis by (simp only: opts_def)
qed

lemma parser_end_options: "p_options (snd (snd (parser_end h st))) = p_options st"
  by (cases "parseFields h (p_text st) (p_options st) (p_line st)")
     (simp_all add: parser_end_def Let_def)

section \<open>Layout validation: the column walk\<close>


























section \<open>Claims\<close>



text \<open>
  C4. Decoding checks the length of the line first: a line longer than the total width fails
  with \<open>UNEXPECTED_LINE_LENGTH\<close> unless longer lines are allowed, a shorter one fails with
  the same code unless shorter lines are allowed; the error carries the line number and the
  text. When the options name none of \<open>relax\<close>, \<open>allowLongerLines\<close>, \<open>allowShorterLines\<close>,
  longer lines are allowed and shorter ones are not. With the layout of two fields of
  width 2 (total width 4), decoding \<open>ab\<close> fails by default, and with \<open>allowShorterLines: true\<close>
  it yields the record \<open>["ab", ""]\<close>.
\<close>

theorem parseFields_length_check:
  "(length text > o_width opts \<and> \<not> o_allowLongerLines opts \<longrightarrow>
      parseFields h text opts line =
        Inl (FixedWidthError ''UNEXPECTED_LINE_LENGTH''
              (''Line '' @ nat_dec line @ '' is longer than expected (see allowLongerLines options)'')
              [(''line'', JNum (NInt (int line))), (''value'', JStr text)]))
   \<and> (length text < o_width opts \<and> \<not> o_allowShorterLines opts \<longrightarrow>
      (\<exists>msg. parseFields h text opts line =
        Inl (FixedWidthError ''UNEXPECTED_LINE_LENGTH'' msg
              [(''line'', JNum (NInt (int line))), (''value'', JStr text)])))
   \<and> (parseOptions input = Some (Inr opts)
        \<and> get_prop (options_object input) ''relax'' = JUndefined
        \<and> get_prop (options_object input) ''allowLongerLines'' = JUndefined
        \<and> get_prop (options_object input) ''allowShorterLines'' = JUndefined \<longrightarrow>
      o_allowLongerLines opts \<and> \<not> o_allowShorterLines opts)
   \<and> parseOptions two_fields = Some (Inr two_fields_options)
   \<and> o_width two_fields_options = 4
   \<and> parseFields h ''ab'' two_fields_options line =
        Inl (FixedWidthError ''UNEXPECTED_LINE_LENGTH''
              (''Line '' @ nat_dec line @ '' is shorted than expected (see allowShorterLines options)'')
              [(''line'', JNum (NInt (int line))), (''value'', JStr ''ab'')])
   \<and> parseOptions (JObject [(KStr ''fields'', two_fields), (KStr ''allowShorterLines'', JBool True)])
        = Some (Inr (two_fields_options\<lparr> o_allowShorterLines := True \<rparr>))
   \<and> parseFields h ''ab'' (two_fields_options\<lparr> o_allowShorterLines := True \<rparr>) line
        = Inr (JArray [JStr ''ab'', JStr ''''])"
proof -
  have a: "length text > o_width opts \<and> \<not> o_allowLongerLines opts \<longrightarrow>
      parseFields h text opts line =
        Inl (FixedWidthError ''UNEXPECTED_LINE_LENGTH''
              (''Line '' @ nat_dec line @ '' is longer than expected (see allowLongerLines options)'')
              [(''line'', JNum (NInt (int line))), (''value'', JStr text)])"
    by (simp add: parseFields_def)
  have b: "length text < o_width opts \<and> \<not> o_allowShorterLines opts \<longrightarrow>
      (\<exists>msg. parseFields h text opts line =
        Inl (FixedWidthError ''UNEXPECTED_LINE_LENGTH'' msg
              [(''line'', JNum (NInt (int line))), (''value'', JStr text)]))"
    by (simp add: parseFields_def)
  have c: "parseOptions input = Some (Inr opts)
        \<and> get_prop (options_object input) ''relax'' = JUndefined
        \<and> get_prop (options_object input) ''allowLongerLines'' = JUndefined
        \<and> get_prop (options_object input) ''allowShorterLines'' = JUndefined \<longrightarrow>
      o_allowLongerLines opts \<and> \<not> o_allowShorterLines opts"
    by (auto simp: parseOptions_def Let_def relax_or_def
        split: jsval.splits if_splits option.splits sum.splits)
  have d: "parseFields h ''ab'' two_fields_options line =
        Inl (FixedWidthError ''UNEXPECTED_LINE_LENGTH''
              (''Line '' @ nat_dec line @ '' is shorted than expected (see allowShorterLines options)'')
              [(''line'', JNum (NInt (int line))), (''value'', JStr ''ab'')])"
    by (simp add: parseFields_def two_fields_options_def)
  have e: "parseFields h ''ab'' (two_fields_options\<lparr> o_allowShorterLines := True \<rparr>) line
        = Inr (JArray [JStr ''ab'', JStr ''''])"
    by (simp add: parseFields_def two_fields_options_def parseField_def js_substring_def
        trim_strip strip_leading_def strip_trailing_def)
  have f: "o_width two_fields_options = 4"
    by (simp add: two_fields_options_def)
  from a b c d e f two_fields_parse two_fields_relaxed_parse show ?thesis
    by blast
qed

theorem parseFields_length_check_witness:
  "length ''abcde'' > o_width (two_fields_options\<lparr> o_allowLongerLines := False \<rparr>)
   \<and> \<not> o_allowLongerLines (two_fields_options\<lparr> o_allowLongerLines := False \<rparr>)
   \<and> parseFields plain_host ''abcde'' (two_fields_options\<lparr> o_allowLongerLines := False \<rparr>) 7 =
        Inl (FixedWidthError ''UNEXPECTED_LINE_LENGTH''
              ''Line 7 is longer than expected (see allowLongerLines options)''
              [(''line'', JNum (NInt 7)), (''value'', JStr ''abcde'')])
   \<and> length ''ab'' < o_width two_fields_options
   \<and> \<not> o_allowShorterLines two_fields_options
   \<and> (\<exists>msg. parseFields plain_host ''ab'' two_fields_options 1 =
        Inl (FixedWidthError ''UNEXPECTED_LINE_LENGTH'' msg
              [(''line'', JNum (NInt 1)), (''value'', JStr ''ab'')]))
   \<and> parseOptions two_fields = Some (Inr two_fields_options)
   \<and> get_prop (options_object two_fields) ''relax'' = JUndefined
   \<and> get_prop (options_object two_fields) ''allowLongerLines'' = JUndefined
   \<and> get_prop (options_object two_fields) ''allowShorterLines'' = JUndefined
   \<and> o_allowLongerLines two_fields_options"
  using parseFields_length_check
    [of "two_fields_options\<lparr> o_allowLongerLines := False \<rparr>" "''abcde''" plain_host 7 two_fields]
    parseFields_length_check [of two_fields_options "''ab''" plain_host 1 two_fields]
  by (simp add: two_fields_options_def two_fields_def options_object_def)

text \<open>
  C5. Let \<open>s\<close> be the display string a value is coerced to (after the encode hook, if any).
  If \<open>s\<close> is strictly longer than the field's width, encoding the field fails with
  \<open>FIELD_VALUE_OVERFLOW\<close>, and the error carries line, column, width and value. If \<open>s\<close> is
  at most as long as the width, encoding succeeds, and \<open>s\<close> is kept whole in the result (at
  its start for a left-aligned field, at its end for a right-aligned one), which has the
  field's width. The number 123 overflows a field of width 2 and encodes as \<open>123\<close> at
  width 3.
\<close>

theorem stringifyField_overflow:
  "((case f_stringify fld of
       None \<Rightarrow> Inr (read_prop obj (f_property fld))
     | Some g \<Rightarrow> call_stringify h g (read_prop obj (f_property fld))) = Inr raw
    \<and> stringifyValue h raw (o_encoding opts) = Inr (JStr s)
    \<and> length s > f_width fld \<longrightarrow>
      stringifyField h obj fld opts line =
        Inl (FixedWidthError ''FIELD_VALUE_OVERFLOW''
              (''Value on position '' @ nat_dec line @ '':'' @ nat_dec (f_column fld)
                 @ '' overflow its width'')
              [(''line'', JNum (NInt (int line))),
               (''column'', JNum (NInt (int (f_column fld)))),
               (''width'', JNum (NInt (int (f_width fld)))),
               (''value'', JStr s)]))
   \<and> ((case f_stringify fld of
          None \<Rightarrow> Inr (read_prop obj (f_property fld))
        | Some g \<Rightarrow> call_stringify h g (read_prop obj (f_property fld))) = Inr raw
       \<and> stringifyValue h raw (o_encoding opts) = Inr (JStr s)
       \<and> length s \<le> f_width fld \<longrightarrow>
      (\<exists>out. stringifyField h obj fld opts line = Inr out
             \<and> (if f_align fld = ARight then suffix s out else prefix s out)
             \<and> (length (f_pad fld) = 1 \<longrightarrow> length out = f_width fld)))
   \<and> stringifyField plain_host (JArray [JNum (NInt 123)]) (plain_field 2) opts line
        = Inl (FixedWidthError ''FIELD_VALUE_OVERFLOW''
                (''Value on position '' @ nat_dec line @ '':1 overflow its width'')
                [(''line'', JNum (NInt (int line))), (''column'', JNum (NInt 1)),
                 (''width'', JNum (NInt 2)), (''value'', JStr ''123'')])
   \<and> stringifyField plain_host (JArray [JNum (NInt 123)]) (plain_field 3) opts line
        = Inr ''123''"
proof -
  have a: "(case f_stringify fld of
       None \<Rightarrow> Inr (read_prop obj (f_property fld))
     | Some g \<Rightarrow> call_stringify h g (read_prop obj (f_property fld))) = Inr raw
    \<and> stringifyValue h raw (o_encoding opts) = Inr (JStr s)
    \<and> length s > f_width fld \<longrightarrow>
      stringifyField h obj fld opts line =
        Inl (FixedWidthError ''FIELD_VALUE_OVERFLOW''
              (''Value on position '' @ nat_dec line @ '':'' @ nat_dec (f_column fld)
                 @ '' overflow its width'')
              [(''line'', JNum (NInt (int line))),
               (''column'', JNum (NInt (int (f_column fld)))),
               (''width'', JNum (NInt (int (f_width fld)))),
               (''value'', JStr s)])"
    by (simp add: stringifyField_def field_context_def)
  have b: "(case f_stringify fld of
          None \<Rightarrow> Inr (read_prop obj (f_property fld))
        | Some g \<Rightarrow> call_stringify h g (read_prop obj (f_property fld))) = Inr raw
       \<and> stringifyValue h raw (o_encoding opts) = Inr (JStr s)
       \<and> length s \<le> f_width fld \<longrightarrow>
      (\<exists>out. stringifyField h obj fld opts line = Inr out
             \<and> (if f_align fld = ARight then suffix s out else prefix s out)
             \<and> (length (f_pad fld) = 1 \<longrightarrow> length out = f_width fld))"
    by (simp add: stringifyField_def length_padEnd length_padStart prefix_padEnd suffix_padStart)
  have c: "stringifyField plain_host (JArray [JNum (NInt 123)]) (plain_field 2) opts line
        = Inl (FixedWidthError ''FIELD_VALUE_OVERFLOW''
                (''Value on position '' @ nat_dec line @ '':1 overflow its width'')
                [(''line'', JNum (NInt (int line))), (''column'', JNum (NInt 1)),
                 (''width'', JNum (NInt 2)), (''value'', JStr ''123'')])"
    by (simp add: stringifyField_def stringifyValue_def plain_host_def plain_field_def
        field_context_def int_dec_def nat_dec_123)
  have e: "stringifyField plain_host (JArray [JNum (NInt 123)]) (plain_field 3) opts line
        = Inr ''123''"
    by (simp add: stringifyField_def stringifyValue_def plain_host_def plain_field_def
        int_dec_def nat_dec_123 js_padEnd_def)
  from a b c e show ?thesis by blast
qed

theorem stringifyField_overflow_witness:
  "stringifyValue plain_host (JStr ''abc'') (o_encoding two_fields_options) = Inr (JStr ''abc'')
   \<and> length ''abc'' > f_width (plain_field 2)
   \<and> stringifyField plain_host (JArray [JStr ''abc'']) (plain_field 2) two_fields_options 4
        = Inl (FixedWidthError ''FIELD_VALUE_OVERFLOW''
                ''Value on position 4:1 overflow its width''
                [(''line'', JNum (NInt 4)), (''column'', JNum (NInt 1)),
                 (''width'', JNum (NInt 2)), (''value'', JStr ''abc'')])
   \<and> length ''abc'' \<le> f_width (plain_field 5)
   \<and> (\<exists>out. stringifyField plain_host (JArray [JStr ''abc'']) (plain_field 5)
                two_fields_options 4 = Inr out
             \<and> prefix ''abc'' out \<and> length out = 5)"
proof -
  have h1: "(case f_stringify (plain_field 2) of
               None \<Rightarrow> Inr (read_prop (JArray [JStr ''abc'']) (f_property (plain_field 2)))
             | Some g \<Rightarrow> call_stringify plain_host g
                 (read_prop (JArray [JStr ''abc'']) (f_property (plain_field 2))))
              = Inr (JStr ''abc'')
            \<and> stringifyValue plain_host (JStr ''abc'') (o_encoding two_fields_options)
                = Inr (JStr ''abc'')
            \<and> length ''abc'' > f_width (plain_field 2)"
    by (simp add: plain_field_def stringifyValue_def)
  have h2: "(case f_stringify (plain_field 5) of
               None \<Rightarrow> Inr (read_prop (JArray [JStr ''abc'']) (f_property (plain_field 5)))
             | Some g \<Rightarrow> call_stringify plain_host g
                 (read_prop (JArray [JStr ''abc'']) (f_property (plain_field 5))))
              = Inr (JStr ''abc'')
            \<and> stringifyValue plain_host (JStr ''abc'') (o_encoding two_fields_options)
                = Inr (JStr ''abc'')
            \<and> length ''abc'' \<le> f_width (plain_field 5)"
    by (simp add: plain_field_def stringifyValue_def)
  note t = stringifyField_overflow
      [where fld = "plain_field 2" and obj = "JArray [JStr ''abc'']" and h = plain_host
        and raw = "JStr ''abc''" and opts = two_fields_options and s = "''abc''" and line = 4]
  note u = stringifyField_overflow
      [where fld = "plain_field 5" and obj = "JArray [JStr ''abc'']" and h = plain_host
        and raw = "JStr ''abc''" and opts = two_fields_options and s = "''abc''" and line = 4]
  have r1: "stringifyField plain_host (JArray [JStr ''abc'']) (plain_field 2) two_fields_options 4
        = Inl (FixedWidthError ''FIELD_VALUE_OVERFLOW''
                ''Value on position 4:1 overflow its width''
                [(''line'', JNum (NInt 4)), (''column'', JNum (NInt 1)),
                 (''width'', JNum (NInt 2)), (''value'', JStr ''abc'')])"
    using t [THEN conjunct1, rule_format, OF h1] by (simp add: plain_field_def)
  have r2: "\<exists>out. stringifyField plain_host (JArray [JStr ''abc'']) (plain_field 5)
                two_fields_options 4 = Inr out
             \<and> prefix ''abc'' out \<and> length out = 5"
    using u [THEN conjunct2, THEN conjunct1, rule_format, OF h2] by (simp add: plain_field_def)
  from h1 h2 r1 r2 show ?thesis by blast
qed



text \<open>
  C8. With \<open>skipEmptyLines\<close> on, an empty line is never decoded. The line counter, however,
  is not advanced by an empty line that is skipped inside the range: after writing a single
  empty line the counter is still 1, whereas an empty line outside the range (here with
  \<open>from = 2\<close>) does advance it to 2. With \<open>to = 1\<close> the input of an empty line followed by
  \<open>abcd\<close> therefore yields the record of \<open>abcd\<close>, the second line of the input.
\<close>

theorem skipped_empty_line_counter:
  "parser_write plain_host (lf_parser 1 PosInfinity) [LF]
     = ([], None, (lf_parser 1 PosInfinity)\<lparr> p_line := 1, p_totalLines := 1 \<rparr>)
   \<and> parser_write plain_host (lf_parser 2 PosInfinity) [LF]
     = ([], None, (lf_parser 2 PosInfinity)\<lparr> p_line := 2, p_totalLines := 1 \<rparr>)
   \<and> new_Parser (JObject [(KStr ''fields'', two_fields), (KStr ''eol'', JStr [LF]),
                          (KStr ''to'', JNum (NInt 1))])
     = Some (Inr (lf_parser 1 (Fin 1)))
   \<and> parseIterable plain_host (lf_parser 1 (Fin 1)) [LF # ''abcd'' @ [LF]]
     = ([JArray [JStr ''ab'', JStr ''cd'']], None)"
  by (simp add: lf_parser_new)
     (simp add: lf_parser_def lf_options_def two_fields_options_def eval_parser LF_def CR_def)

text \<open>
  C9 (amended). When no line ending is configured, \<open>guessEndOfLine\<close> looks at the
  accumulated text: a carriage return directly followed by a line feed anywhere in it
  selects \<open>\r\n\<close>; otherwise the first carriage return or line feed of the text decides: a
  line feed selects \<open>\n\<close>, a carriage return followed by more text selects \<open>\r\<close>, and a
  carriage return that ends the text selects nothing (so does a text without either). A
  detected line ending is stored in the options, and \<open>write\<close> and \<open>end\<close> never change a
  line ending that is set.
\<close>

theorem guessEndOfLine_detect:
  "(contains_crlf buf \<longrightarrow> guessEndOfLine buf = Some [CR, LF])
   \<and> (\<not> contains_crlf buf \<and> first_break_at buf i \<and> buf ! i = LF \<longrightarrow>
        guessEndOfLine buf = Some [LF])
   \<and> (\<not> contains_crlf buf \<and> first_break_at buf i \<and> buf ! i = CR \<and> Suc i < length buf \<longrightarrow>
        guessEndOfLine buf = Some [CR])
   \<and> (\<not> contains_crlf buf \<and> first_break_at buf i \<and> buf ! i = CR \<and> Suc i = length buf \<longrightarrow>
        guessEndOfLine buf = None)
   \<and> (CR \<notin> set buf \<and> LF \<notin> set buf \<longrightarrow> guessEndOfLine buf = None)
   \<and> (eol_unset (o_eol (p_options st)) \<and> guessEndOfLine (p_text st @ input) = Some e \<longrightarrow>
        o_eol (p_options (snd (snd (parser_write h st input)))) = EolStr e)
   \<and> (eol_unset (o_eol (p_options st)) \<and> guessEndOfLine (p_text st @ input) = None \<longrightarrow>
        parser_write h st input = ([], None, st\<lparr> p_text := p_text st @ input \<rparr>))
   \<and> (\<not> eol_unset (o_eol (p_options st)) \<longrightarrow>
        o_eol (p_options (snd (snd (parser_write h st input)))) = o_eol (p_options st)
        \<and> o_eol (p_options (snd (snd (parser_end h st)))) = o_eol (p_options st))"
proof -
  have crlf: "contains_crlf buf \<longrightarrow> guessEndOfLine buf = Some [CR, LF]"
    by (simp add: guessEndOfLine_def has_crlf_iff)
  have brk: "\<not> contains_crlf buf \<and> first_break_at buf i \<longrightarrow>
      guessEndOfLine buf =
        (if buf ! i = LF then Some [LF] else if Suc i < length buf then Some [CR] else None)"
  proof
    assume a: "\<not> contains_crlf buf \<and> first_break_at buf i"
    then have "first_break buf = Some i" and "i < length buf"
      by (simp_all add: first_break_Some) (simp add: first_break_at_def)
    with a show "guessEndOfLine buf =
        (if buf ! i = LF then Some [LF] else if Suc i < length buf then Some [CR] else None)"
      by (simp add: guessEndOfLine_def has_crlf_iff js_index_nth)
  qed
  have ne: "CR \<noteq> LF" by (simp add: CR_def LF_def)
  have none: "CR \<notin> set buf \<and> LF \<notin> set buf \<longrightarrow> guessEndOfLine buf = None"
  proof
    assume a: "CR \<notin> set buf \<and> LF \<notin> set buf"
    then have "first_break buf = None" by (simp add: first_break_None)
    moreover have "\<not> contains_crlf buf"
      using a by (auto simp: contains_crlf_def dest: nth_mem [of _ buf])
    ultimately show "guessEndOfLine buf = None"
      by (simp add: guessEndOfLine_def has_crlf_iff)
  qed
  have det: "eol_unset (o_eol (p_options st)) \<and> guessEndOfLine (p_text st @ input) = Some e \<longrightarrow>
        o_eol (p_options (snd (snd (parser_write h st input)))) = EolStr e"
    by (simp add: parser_write_options)
  have undet: "eol_unset (o_eol (p_options st)) \<and> guessEndOfLine (p_text st @ input) = None \<longrightarrow>
        parser_write h st input = ([], None, st\<lparr> p_text := p_text st @ input \<rparr>)"
    by (simp add: parser_write_def Let_def)
  have lock: "\<not> eol_unset (o_eol (p_options st)) \<longrightarrow>
        o_eol (p_options (snd (snd (parser_write h st input)))) = o_eol (p_options st)
        \<and> o_eol (p_options (snd (snd (parser_end h st)))) = o_eol (p_options st)"
    by (simp add: parser_write_options parser_end_options)
  from crlf brk ne none det undet lock show ?thesis
    by (simp (no_asm_simp))
qed

text \<open>The text \<open>a\rb\nc\<close> has a line feed and no \<open>\r\n\<close>, yet \<open>\r\<close> is selected: the first
  line break decides, not a priority of \<open>\n\<close> over \<open>\r\<close>.\<close>

theorem guessEndOfLine_priority_counterexample:
  "\<not> contains_crlf (''a'' @ [CR] @ ''b'' @ [LF] @ ''c'')
   \<and> LF \<in> set (''a'' @ [CR] @ ''b'' @ [LF] @ ''c'')
   \<and> guessEndOfLine (''a'' @ [CR] @ ''b'' @ [LF] @ ''c'') = Some [CR]"
  by (simp add: has_crlf_iff [symmetric] guessEndOfLine_def js_index_def CR_def LF_def)

theorem guessEndOfLine_detect_witness:
  "contains_crlf (''a'' @ [CR, LF])
   \<and> guessEndOfLine (''a'' @ [CR, LF]) = Some [CR, LF]
   \<and> \<not> contains_crlf (''a'' @ [LF] @ ''b'' @ [CR]) \<and> first_break_at (''a'' @ [LF] @ ''b'' @ [CR]) 1
   \<and> guessEndOfLine (''a'' @ [LF] @ ''b'' @ [CR]) = Some [LF]
   \<and> \<not> contains_crlf (''a'' @ [CR] @ ''b'' @ [LF] @ ''c'')
   \<and> first_break_at (''a'' @ [CR] @ ''b'' @ [LF] @ ''c'') 1
   \<and> guessEndOfLine (''a'' @ [CR] @ ''b'' @ [LF] @ ''c'') = Some [CR]
   \<and> \<not> contains_crlf (''a'' @ [CR]) \<and> first_break_at (''a'' @ [CR]) 1
   \<and> guessEndOfLine (''a'' @ [CR]) = None
   \<and> guessEndOfLine ''abc'' = None
   \<and> eol_unset (o_eol (p_options (lf_parser 1 PosInfinity\<lparr> p_options := two_fields_options \<rparr>)))
   \<and> o_eol (p_options (snd (snd (parser_write plain_host
        (lf_parser 1 PosInfinity\<lparr> p_options := two_fields_options \<rparr>) (''abcd'' @ [CR, LF])))))
       = EolStr [CR, LF]
   \<and> parser_write plain_host (lf_parser 1 PosInfinity\<lparr> p_options := two_fields_options \<rparr>)
        (''abcd'' @ [CR])
       = ([], None, lf_parser 1 PosInfinity
            \<lparr> p_options := two_fields_options, p_text := ''abcd'' @ [CR] \<rparr>)
   \<and> \<not> eol_unset (o_eol (p_options (lf_parser 1 PosInfinity)))
   \<and> o_eol (p_options (snd (snd (parser_write plain_host (lf_parser 1 PosInfinity)
        (''abcd'' @ [CR, LF]))))) = EolStr [LF]"
proof -
  let ?st = "lf_parser 1 PosInfinity\<lparr> p_options := two_fields_options \<rparr>"
  have ne: "CR \<noteq> LF" "CHR ''a'' \<noteq> CR" "CHR ''a'' \<noteq> LF" "CHR ''b'' \<noteq> CR" "CHR ''b'' \<noteq> LF"
    "CHR ''c'' \<noteq> CR" "CHR ''c'' \<noteq> LF" "CHR ''d'' \<noteq> CR" "CHR ''d'' \<noteq> LF"
    by (simp_all add: CR_def LF_def)
  have h1: "contains_crlf (''a'' @ [CR, LF])"
    by (simp add: has_crlf_iff [symmetric])
  have h2: "\<not> contains_crlf (''a'' @ [LF] @ ''b'' @ [CR])
      \<and> first_break_at (''a'' @ [LF] @ ''b'' @ [CR]) 1 \<and> (''a'' @ [LF] @ ''b'' @ [CR]) ! 1 = LF"
    using ne by (simp add: has_crlf_iff [symmetric] first_break_at_def)
  have h3: "\<not> contains_crlf (''a'' @ [CR] @ ''b'' @ [LF] @ ''c'')
      \<and> first_break_at (''a'' @ [CR] @ ''b'' @ [LF] @ ''c'') 1
      \<and> (''a'' @ [CR] @ ''b'' @ [LF] @ ''c'') ! 1 = CR
      \<and> Suc 1 < length (''a'' @ [CR] @ ''b'' @ [LF] @ ''c'')"
    using ne by (simp add: has_crlf_iff [symmetric] first_break_at_def)
  have h4: "\<not> contains_crlf (''a'' @ [CR]) \<and> first_break_at (''a'' @ [CR]) 1
      \<and> (''a'' @ [CR]) ! 1 = CR \<and> Suc 1 = length (''a'' @ [CR])"
    using ne by (simp add: has_crlf_iff [symmetric] first_break_at_def)
  have h5: "CR \<notin> set ''abc'' \<and> LF \<notin> set ''abc''"
    using ne by auto
  have h6: "eol_unset (o_eol (p_options ?st))
      \<and> guessEndOfLine (p_text ?st @ (''abcd'' @ [CR, LF])) = Some [CR, LF]"
    by (simp add: lf_parser_def two_fields_options_def guessEndOfLine_def)
  have h7: "eol_unset (o_eol (p_options ?st))
      \<and> guessEndOfLine (p_text ?st @ (''abcd'' @ [CR])) = None"
    using ne by (simp add: lf_parser_def two_fields_options_def guessEndOfLine_def js_index_def)
  have h8: "\<not> eol_unset (o_eol (p_options (lf_parser 1 PosInfinity)))"
    by (simp add: lf_parser_def lf_options_def)
  note a = guessEndOfLine_detect [where buf = "''a'' @ [CR, LF]"]
  note b = guessEndOfLine_detect [where buf = "''a'' @ [LF] @ ''b'' @ [CR]" and i = 1]
  note c = guessEndOfLine_detect [where buf = "''a'' @ [CR] @ ''b'' @ [LF] @ ''c''" and i = 1]
  note d = guessEndOfLine_detect [where buf = "''a'' @ [CR]" and i = 1]
  note e = guessEndOfLine_detect [where buf = "''abc''"]
  note f = guessEndOfLine_detect
    [where st = ?st and input = "''abcd'' @ [CR, LF]" and e = "[CR, LF]" and h = plain_host]
  note g = guessEndOfLine_detect
    [where st = ?st and input = "''abcd'' @ [CR]" and h = plain_host]
  note k = guessEndOfLine_detect
    [where st = "lf_parser 1 PosInfinity" and input = "''abcd'' @ [CR, LF]" and h = plain_host]
  have r1: "guessEndOfLine (''a'' @ [CR, LF]) = Some [CR, LF]"
    by (rule a [THEN conjunct1, rule_format, OF h1])
  have r2: "guessEndOfLine (''a'' @ [LF] @ ''b'' @ [CR]) = Some [LF]"
    by (rule b [THEN conjunct2, THEN conjunct1, rule_format, OF h2])
  have r3: "guessEndOfLine (''a'' @ [CR] @ ''b'' @ [LF] @ ''c'') = Some [CR]"
    by (rule c [THEN conjunct2, THEN conjunct2, THEN conjunct1, rule_format, OF h3])
  have r4: "guessEndOfLine (''a'' @ [CR]) = None"
    by (rule d [THEN conjunct2, THEN conjunct2, THEN conjunct2, THEN conjunct1, rule_format,
          OF h4])
  have r5: "guessEndOfLine ''abc'' = None"
    by (rule e [THEN conjunct2, THEN conjunct2, THEN conjunct2, THEN conjunct2, THEN conjunct1,
          rule_format, OF h5])
  have r6: "o_eol (p_options (snd (snd (parser_write plain_host ?st (''abcd'' @ [CR, LF])))))
       = EolStr [CR, LF]"
    by (rule f [THEN conjunct2, THEN conjunct2, THEN conjunct2, THEN conjunct2, THEN conjunct2,
          THEN conjunct1, rule_format, OF h6])
  have r7: "parser_write plain_host ?st (''abcd'' @ [CR])
       = ([], None, ?st\<lparr> p_text := p_text ?st @ (''abcd'' @ [CR]) \<rparr>)"
    by (rule g [THEN conjunct2, THEN conjunct2, THEN conjunct2, THEN conjunct2, THEN conjunct2,
          THEN conjunct2, THEN conjunct1, rule_format, OF h7])
  have r8: "o_eol (p_options (snd (snd (parser_write plain_host (lf_parser 1 PosInfinity)
        (''abcd'' @ [CR, LF]))))) = o_eol (p_options (lf_parser 1 PosInfinity))"
    by (rule k [THEN conjunct2, THEN conjunct2, THEN conjunct2, THEN conjunct2, THEN conjunct2,
          THEN conjunct2, THEN conjunct2, rule_format, OF h8, THEN conjunct1])
  from h1 h2 h3 h4 h6 h8 r1 r2 r3 r4 r5 r6 r7 r8 show ?thesis
    by (simp add: lf_parser_def lf_options_def)
qed







end
